theory Spec2Isabelle
  imports Complex_Main "HOL-Library.Sublist"
begin

section \<open>Orders (order.py)\<close>

text \<open>
  Quantities, prices and timestamps are Python floats in the source. They are modelled as
  exact rationals: the arithmetic of the model is exact, IEEE rounding is not modelled.
  The status of an order is the Python string the source stores.
\<close>

datatype Side = BUY | SELL

datatype OrderType = LIMIT | MARKET

record Order =
  id' :: nat
  side :: Side
  order_type :: OrderType
  quantity :: rat
  price :: "rat option"
  timestamp :: rat
  remaining :: rat
  filled :: rat
  trader_id :: string
  status :: string

text \<open>
  \<^verbatim>\<open>Order.__init__\<close>, given the identifier drawn from the class counter and the reading of
  the clock.
\<close>

definition Order_init :: "nat \<Rightarrow> Side \<Rightarrow> OrderType \<Rightarrow> rat \<Rightarrow> rat option \<Rightarrow> string \<Rightarrow> rat \<Rightarrow> Order" where
  "Order_init i sd ty qty pr trader now =
     \<lparr>id' = i, side = sd, order_type = ty, quantity = qty, price = pr, timestamp = now,
      remaining = qty, filled = 0, trader_id = trader, status = ''open''\<rparr>"

text \<open>\<^verbatim>\<open>Order.fill\<close>: the applied quantity and the order after the call.\<close>

definition fill :: "Order \<Rightarrow> rat \<Rightarrow> rat \<times> Order" where
  "fill ord qty =
     (let q = min qty (remaining ord);
          o1 = ord\<lparr>filled := filled ord + q\<rparr>;
          o2 = o1\<lparr>remaining := remaining o1 - q\<rparr>;
          o3 = (if remaining o2 = 0 then o2\<lparr>status := ''filled''\<rparr>
                else o2\<lparr>status := ''partial''\<rparr>)
      in (q, o3))"

text \<open>\<^verbatim>\<open>Order.cancel\<close>.\<close>

definition cancel :: "Order \<Rightarrow> Order" where
  "cancel ord = ord\<lparr>status := ''cancelled''\<rparr>"




section \<open>Trades and price levels (orderbook.py)\<close>

text \<open>
  A trade records the identifiers of the two orders, the price and the quantity. The wall
  clock reading stored in a trade is not modelled.
\<close>

record Trade =
  buy_order_id :: nat
  sell_order_id :: nat
  trade_price :: rat
  trade_quantity :: rat

text \<open>
  Order objects are shared: the caller, the identifier index, the priority heaps and the
  price levels all refer to the same object, and a fill through one reference is seen
  through the others. The model keeps the objects in a store, a function from references
  to orders, and every structure holds references. The reference of an order is the
  address at which the store keeps it.
\<close>

type_synonym store = "nat \<Rightarrow> Order"

record PriceLevel =
  level_price :: rat
  orders :: "nat list"
  total_quantity :: rat

definition PriceLevel_init :: "rat \<Rightarrow> PriceLevel" where
  "PriceLevel_init p = \<lparr>level_price = p, orders = [], total_quantity = 0\<rparr>"

text \<open>\<^verbatim>\<open>PriceLevel.add_order\<close>.\<close>

definition level_add_order :: "store \<Rightarrow> PriceLevel \<Rightarrow> nat \<Rightarrow> PriceLevel" where
  "level_add_order m lvl r =
     lvl\<lparr>orders := orders lvl @ [r], total_quantity := total_quantity lvl + remaining (m r)\<rparr>"

text \<open>\<^verbatim>\<open>PriceLevel.remove_filled\<close>.\<close>

definition remove_filled :: "store \<Rightarrow> PriceLevel \<Rightarrow> PriceLevel" where
  "remove_filled m lvl =
     (let kept = filter (\<lambda>r. remaining (m r) > 0 \<and> status (m r) \<notin> {''cancelled'', ''filled''})
                   (orders lvl)
      in lvl\<lparr>orders := kept, total_quantity := sum_list (map (\<lambda>r. remaining (m r)) kept)\<rparr>)"

section \<open>The priority heaps\<close>

text \<open>
  The book keeps each side in a \<^verbatim>\<open>heapq\<close> heap of tuples (key, timestamp, order), the key
  being the price of an ask and the negated price of a bid. \<^verbatim>\<open>heapq\<close> belongs to Python's
  library and is modelled by its contract: the heap holds a collection of entries,
  \<^verbatim>\<open>heap[0]\<close> is its least entry, \<^verbatim>\<open>heappop\<close> removes that entry and \<^verbatim>\<open>heappush\<close> adds one.
  The model keeps the entries as a list in ascending order, so the least entry is the head.

  The contract needs entries that compare. Python compares the tuples component by
  component; two entries with the same key and the same timestamp that refer to different
  orders make it compare the Order objects, which raises \<^verbatim>\<open>TypeError\<close> since the class
  defines no ordering. The model raises when \<^verbatim>\<open>heappush\<close> would put such a pair in one
  heap: from there on CPython raises at the first comparison of the two entries,
  in this call or in a later one.
\<close>

datatype error = TypeError

type_synonym entry = "rat \<times> rat \<times> nat"

definition entry_lt :: "entry \<Rightarrow> entry \<Rightarrow> bool" where
  "entry_lt e1 e2 =
     (fst e1 < fst e2 \<or> (fst e1 = fst e2 \<and> fst (snd e1) < fst (snd e2)))"

definition incomparable :: "entry \<Rightarrow> entry \<Rightarrow> bool" where
  "incomparable e1 e2 =
     (fst e1 = fst e2 \<and> fst (snd e1) = fst (snd e2) \<and> snd (snd e1) \<noteq> snd (snd e2))"

fun heap_insert :: "entry \<Rightarrow> entry list \<Rightarrow> entry list" where
  "heap_insert e [] = [e]"
| "heap_insert e (x # xs) = (if entry_lt e x then e # x # xs else x # heap_insert e xs)"

definition heappush :: "entry list \<Rightarrow> entry \<Rightarrow> error + entry list" where
  "heappush h e =
     (if list_ex (incomparable e) h then Inl TypeError else Inr (heap_insert e h))"

definition heappop :: "entry list \<Rightarrow> entry list" where
  "heappop h = tl h"

section \<open>The order book (orderbook.py)\<close>

text \<open>
  The state holds the fields of the OrderBook object, and with them the two pieces of the
  Python process the book works on: the store of Order objects and the class attribute
  \<^verbatim>\<open>Order._id_counter\<close>. The dictionary \<^verbatim>\<open>_orders\<close> maps an identifier to the reference of
  its order.
\<close>

record state =
  mem :: store
  id_counter :: nat
  bid_heap :: "entry list"
  ask_heap :: "entry list"
  bid_levels :: "rat \<rightharpoonup> PriceLevel"
  ask_levels :: "rat \<rightharpoonup> PriceLevel"
  orders_index :: "nat \<rightharpoonup> nat"
  trades :: "Trade list"
  total_volume :: rat
  total_trades :: nat

text \<open>The content of an address at which no order has been constructed.\<close>

definition unallocated :: Order where
  "unallocated = Order_init 0 BUY MARKET 0 None [] 0"

text \<open>A new process with a new book: \<^verbatim>\<open>OrderBook.__init__\<close>, no order constructed yet.\<close>

definition OrderBook_init :: state where
  "OrderBook_init =
     \<lparr>mem = (\<lambda>_. unallocated), id_counter = 0, bid_heap = [], ask_heap = [],
      bid_levels = Map.empty, ask_levels = Map.empty, orders_index = Map.empty,
      trades = [], total_volume = 0, total_trades = 0\<rparr>"

text \<open>
  The constructor call \<^verbatim>\<open>Order(side, order_type, quantity, price, trader_id)\<close> at clock
  reading \<open>now\<close>: the counter is incremented, the new object is stored at the address
  equal to its identifier, and its reference is returned.
\<close>

definition new_order :: "state \<Rightarrow> Side \<Rightarrow> OrderType \<Rightarrow> rat \<Rightarrow> rat option \<Rightarrow> string \<Rightarrow> rat \<Rightarrow> nat \<times> state" where
  "new_order s sd ty qty pr trader now =
     (let i = id_counter s + 1
      in (i, s\<lparr>mem := (mem s)(i := Order_init i sd ty qty pr trader now), id_counter := i\<rparr>))"

text \<open>
  Python's comparisons of a price with \<^verbatim>\<open>order.price\<close>, which is \<^verbatim>\<open>None\<close> for an order made
  without a price: comparing a float with \<^verbatim>\<open>None\<close> raises \<^verbatim>\<open>TypeError\<close>.
\<close>

definition price_gt :: "rat \<Rightarrow> rat option \<Rightarrow> error + bool" where
  "price_gt x lp = (case lp of None \<Rightarrow> Inl TypeError | Some y \<Rightarrow> Inr (x > y))"

definition price_lt :: "rat \<Rightarrow> rat option \<Rightarrow> error + bool" where
  "price_lt x lp = (case lp of None \<Rightarrow> Inl TypeError | Some y \<Rightarrow> Inr (x < y))"

definition price_le :: "rat \<Rightarrow> rat option \<Rightarrow> error + bool" where
  "price_le x lp = (case lp of None \<Rightarrow> Inl TypeError | Some y \<Rightarrow> Inr (x \<le> y))"

definition price_ge :: "rat \<Rightarrow> rat option \<Rightarrow> error + bool" where
  "price_ge x lp = (case lp of None \<Rightarrow> Inl TypeError | Some y \<Rightarrow> Inr (x \<ge> y))"

definition stale :: "Order \<Rightarrow> bool" where
  "stale ord = (status ord \<in> {''filled'', ''cancelled''})"

text \<open>
  The part of the loop body of \<^verbatim>\<open>_fill_from_asks\<close> after its two guards: both orders are
  filled, the trade is appended, and an exhausted passive order is popped and its level
  purged. The aggressor is filled first, the passive order second, each through the store.
\<close>

definition match_ask :: "state \<Rightarrow> nat \<Rightarrow> Trade list \<Rightarrow> Trade list \<times> state" where
  "match_ask s a trs =
     (case hd (ask_heap s) of (best_price, ts, p) \<Rightarrow>
        let fill_qty = min (remaining (mem s a)) (remaining (mem s p));
            s1 = s\<lparr>mem := (mem s)(a := snd (fill (mem s a) fill_qty))\<rparr>;
            s2 = s1\<lparr>mem := (mem s1)(p := snd (fill (mem s1 p) fill_qty))\<rparr>;
            trade = \<lparr>buy_order_id = id' (mem s2 a), sell_order_id = id' (mem s2 p),
                     trade_price = best_price, trade_quantity = fill_qty\<rparr>;
            s3 = (if remaining (mem s2 p) = 0 then
                    (let s' = s2\<lparr>ask_heap := heappop (ask_heap s2)\<rparr>
                     in case ask_levels s' best_price of
                          None \<Rightarrow> s'
                        | Some lvl \<Rightarrow>
                            s'\<lparr>ask_levels := (ask_levels s')(best_price \<mapsto> remove_filled (mem s') lvl)\<rparr>)
                  else s2)
        in (trs @ [trade], s3))"

definition match_bid :: "state \<Rightarrow> nat \<Rightarrow> Trade list \<Rightarrow> Trade list \<times> state" where
  "match_bid s a trs =
     (case hd (bid_heap s) of (neg_price, ts, p) \<Rightarrow>
        let best_price = - neg_price;
            fill_qty = min (remaining (mem s a)) (remaining (mem s p));
            s1 = s\<lparr>mem := (mem s)(a := snd (fill (mem s a) fill_qty))\<rparr>;
            s2 = s1\<lparr>mem := (mem s1)(p := snd (fill (mem s1 p) fill_qty))\<rparr>;
            trade = \<lparr>buy_order_id = id' (mem s2 p), sell_order_id = id' (mem s2 a),
                     trade_price = best_price, trade_quantity = fill_qty\<rparr>;
            s3 = (if remaining (mem s2 p) = 0 then
                    (let s' = s2\<lparr>bid_heap := heappop (bid_heap s2)\<rparr>
                     in case bid_levels s' best_price of
                          None \<Rightarrow> s'
                        | Some lvl \<Rightarrow>
                            s'\<lparr>bid_levels := (bid_levels s')(best_price \<mapsto> remove_filled (mem s') lvl)\<rparr>)
                  else s2)
        in (trs @ [trade], s3))"

text \<open>What \<^verbatim>\<open>fill\<close> does to each field.\<close>

lemma fill_remaining: "remaining (snd (fill ord q)) = remaining ord - min q (remaining ord)"
  by (simp add: fill_def Let_def)



lemma fill_fixed:
  "id' (snd (fill ord q)) = id' ord" "side (snd (fill ord q)) = side ord"
  "order_type (snd (fill ord q)) = order_type ord" "quantity (snd (fill ord q)) = quantity ord"
  "price (snd (fill ord q)) = price ord" "timestamp (snd (fill ord q)) = timestamp ord"
  "trader_id (snd (fill ord q)) = trader_id ord"
  by (simp_all add: fill_def Let_def)

text \<open>The store after one match between the aggressor \<open>a\<close> and the passive order \<open>p\<close>.\<close>

definition matched_mem :: "store \<Rightarrow> nat \<Rightarrow> nat \<Rightarrow> store" where
  "matched_mem m a p =
     (let q = min (remaining (m a)) (remaining (m p));
          m1 = m(a := snd (fill (m a) q))
      in m1(p := snd (fill (m1 p) q)))"

lemma match_ask_mem:
  "mem (snd (match_ask s a trs)) = matched_mem (mem s) a (snd (snd (hd (ask_heap s))))"
  by (simp add: match_ask_def matched_mem_def Let_def split: prod.splits option.splits)

lemma match_bid_mem:
  "mem (snd (match_bid s a trs)) = matched_mem (mem s) a (snd (snd (hd (bid_heap s))))"
  by (simp add: match_bid_def matched_mem_def Let_def split: prod.splits option.splits)

lemma match_ask_heap:
  "ask_heap (snd (match_ask s a trs)) =
     (if remaining (matched_mem (mem s) a (snd (snd (hd (ask_heap s)))) (snd (snd (hd (ask_heap s))))) = 0
      then tl (ask_heap s) else ask_heap s)"
  by (simp add: match_ask_def matched_mem_def Let_def heappop_def split: prod.splits option.splits)

lemma match_bid_heap:
  "bid_heap (snd (match_bid s a trs)) =
     (if remaining (matched_mem (mem s) a (snd (snd (hd (bid_heap s)))) (snd (snd (hd (bid_heap s))))) = 0
      then tl (bid_heap s) else bid_heap s)"
  by (simp add: match_bid_def matched_mem_def Let_def heappop_def split: prod.splits option.splits)

text \<open>
  The measure of the matching loops: every iteration pops an entry or exhausts the
  aggressor.
\<close>

definition loop_measure :: "store \<Rightarrow> entry list \<Rightarrow> nat \<Rightarrow> nat" where
  "loop_measure m h a = 2 * length h + (if remaining (m a) > 0 then 1 else 0)"

lemma matched_mem_exhausts:
  "remaining (m a) > 0 \<Longrightarrow>
   remaining (matched_mem m a p a) = 0 \<or> remaining (matched_mem m a p p) = 0"
  by (auto simp: matched_mem_def Let_def fill_remaining min_def)

lemma match_ask_progress:
  assumes "remaining (mem s a) > 0" "ask_heap s \<noteq> []"
  shows "loop_measure (mem (snd (match_ask s a trs))) (ask_heap (snd (match_ask s a trs))) a
         < loop_measure (mem s) (ask_heap s) a"
proof -
  from assms(2) have len: "length (tl (ask_heap s)) < length (ask_heap s)"
    by (cases "ask_heap s") auto
  show ?thesis
    using matched_mem_exhausts[of "mem s" a "snd (snd (hd (ask_heap s)))"] assms(1) len
    by (auto simp: match_ask_mem match_ask_heap loop_measure_def)
qed

lemma match_bid_progress:
  assumes "remaining (mem s a) > 0" "bid_heap s \<noteq> []"
  shows "loop_measure (mem (snd (match_bid s a trs))) (bid_heap (snd (match_bid s a trs))) a
         < loop_measure (mem s) (bid_heap s) a"
proof -
  from assms(2) have len: "length (tl (bid_heap s)) < length (bid_heap s)"
    by (cases "bid_heap s") auto
  show ?thesis
    using matched_mem_exhausts[of "mem s" a "snd (snd (hd (bid_heap s)))"] assms(1) len
    by (auto simp: match_bid_mem match_bid_heap loop_measure_def)
qed

text \<open>
  \<^verbatim>\<open>_fill_from_asks\<close>: the loop, with the local list \<^verbatim>\<open>trades\<close> as an argument, and the
  method, which starts it on the empty list.
\<close>

function fill_from_asks_loop :: "state \<Rightarrow> nat \<Rightarrow> Trade list \<Rightarrow> error + Trade list \<times> state" where
  "fill_from_asks_loop s a trs =
     (if remaining (mem s a) > 0 \<and> ask_heap s \<noteq> [] then
        (case hd (ask_heap s) of (best_price, ts, p) \<Rightarrow>
           if status (mem s p) \<in> {''filled'', ''cancelled''} then
             fill_from_asks_loop (s\<lparr>ask_heap := heappop (ask_heap s)\<rparr>) a trs
           else
             (case (if order_type (mem s a) = LIMIT then price_gt best_price (price (mem s a))
                    else Inr False) of
                Inl e \<Rightarrow> Inl e
              | Inr stop \<Rightarrow>
                  if stop then Inr (trs, s)
                  else fill_from_asks_loop (snd (match_ask s a trs)) a (fst (match_ask s a trs))))
      else Inr (trs, s))"
  by pat_completeness auto
termination
proof (relation "measure (\<lambda>(s, a, trs). loop_measure (mem s) (ask_heap s) a)", goal_cases)
  case 1
  show ?case by simp
next
  case (2 s a trs x y xa ya)
  then show ?case by (cases "ask_heap s") (auto simp: loop_measure_def heappop_def)
next
  case (3 s a trs x y xa ya xb)
  then show ?case using match_ask_progress[of s a trs] by simp
qed

definition fill_from_asks :: "state \<Rightarrow> nat \<Rightarrow> error + Trade list \<times> state" where
  "fill_from_asks s a = fill_from_asks_loop s a []"

text \<open>\<^verbatim>\<open>_fill_from_bids\<close>, in the same way.\<close>

function fill_from_bids_loop :: "state \<Rightarrow> nat \<Rightarrow> Trade list \<Rightarrow> error + Trade list \<times> state" where
  "fill_from_bids_loop s a trs =
     (if remaining (mem s a) > 0 \<and> bid_heap s \<noteq> [] then
        (case hd (bid_heap s) of (neg_price, ts, p) \<Rightarrow>
           if status (mem s p) \<in> {''filled'', ''cancelled''} then
             fill_from_bids_loop (s\<lparr>bid_heap := heappop (bid_heap s)\<rparr>) a trs
           else
             (case (if order_type (mem s a) = LIMIT then price_lt (- neg_price) (price (mem s a))
                    else Inr False) of
                Inl e \<Rightarrow> Inl e
              | Inr stop \<Rightarrow>
                  if stop then Inr (trs, s)
                  else fill_from_bids_loop (snd (match_bid s a trs)) a (fst (match_bid s a trs))))
      else Inr (trs, s))"
  by pat_completeness auto
termination
proof (relation "measure (\<lambda>(s, a, trs). loop_measure (mem s) (bid_heap s) a)", goal_cases)
  case 1
  show ?case by simp
next
  case (2 s a trs x y xa ya)
  then show ?case by (cases "bid_heap s") (auto simp: loop_measure_def heappop_def)
next
  case (3 s a trs x y xa ya xb)
  then show ?case using match_bid_progress[of s a trs] by simp
qed

definition fill_from_bids :: "state \<Rightarrow> nat \<Rightarrow> error + Trade list \<times> state" where
  "fill_from_bids s a = fill_from_bids_loop s a []"

declare fill_from_asks_loop.simps [simp del] fill_from_bids_loop.simps [simp del]

lemma fill_from_asks_loop_measure:
  "fill_from_asks_loop s a trs = Inr (trs', s') \<Longrightarrow>
   loop_measure (mem s') (ask_heap s') a \<le> loop_measure (mem s) (ask_heap s) a"
proof (induction s a trs rule: fill_from_asks_loop.induct)
  case (1 s a trs)
  show ?case
  proof (cases "remaining (mem s a) > 0 \<and> ask_heap s \<noteq> []")
    case False
    with "1.prems" show ?thesis by (simp add: fill_from_asks_loop.simps)
  next
    case True
    obtain k ts p where hd: "hd (ask_heap s) = (k, ts, p)" by (cases "hd (ask_heap s)") auto
    show ?thesis
    proof (cases "status (mem s p) \<in> {''filled'', ''cancelled''}")
      case st: True
      with True hd "1.prems"
      have "fill_from_asks_loop (s\<lparr>ask_heap := heappop (ask_heap s)\<rparr>) a trs = Inr (trs', s')"
        by (subst (asm) fill_from_asks_loop.simps) simp
      from "1.IH"(1)[OF True hd[symmetric] refl st this]
      show ?thesis by (simp add: loop_measure_def heappop_def)
    next
      case st: False
      show ?thesis
      proof (cases "if order_type (mem s a) = LIMIT then price_gt k (price (mem s a)) else Inr False")
        case (Inl e)
        with True hd st "1.prems" show ?thesis
          by (subst (asm) fill_from_asks_loop.simps) simp
      next
        case (Inr stop)
        show ?thesis
        proof (cases stop)
          case stp: True
          with Inr True hd st "1.prems" show ?thesis
            by (subst (asm) fill_from_asks_loop.simps) simp
        next
          case stp: False
          with Inr True hd st "1.prems"
          have "fill_from_asks_loop (snd (match_ask s a trs)) a (fst (match_ask s a trs)) = Inr (trs', s')"
            by (subst (asm) fill_from_asks_loop.simps) simp
          from "1.IH"(2)[OF True hd[symmetric] refl st Inr stp this]
            match_ask_progress[of s a trs] True
          show ?thesis by simp
        qed
      qed
    qed
  qed
qed


lemma fill_from_bids_loop_measure:
  "fill_from_bids_loop s a trs = Inr (trs', s') \<Longrightarrow>
   loop_measure (mem s') (bid_heap s') a \<le> loop_measure (mem s) (bid_heap s) a"
proof (induction s a trs rule: fill_from_bids_loop.induct)
  case (1 s a trs)
  show ?case
  proof (cases "remaining (mem s a) > 0 \<and> bid_heap s \<noteq> []")
    case False
    with "1.prems" show ?thesis by (simp add: fill_from_bids_loop.simps)
  next
    case True
    obtain k ts p where hd: "hd (bid_heap s) = (k, ts, p)" by (cases "hd (bid_heap s)") auto
    show ?thesis
    proof (cases "status (mem s p) \<in> {''filled'', ''cancelled''}")
      case st: True
      with True hd "1.prems"
      have "fill_from_bids_loop (s\<lparr>bid_heap := heappop (bid_heap s)\<rparr>) a trs = Inr (trs', s')"
        by (subst (asm) fill_from_bids_loop.simps) simp
      from "1.IH"(1)[OF True hd[symmetric] refl st this]
      show ?thesis by (simp add: loop_measure_def heappop_def)
    next
      case st: False
      show ?thesis
      proof (cases "if order_type (mem s a) = LIMIT then price_lt (- k) (price (mem s a)) else Inr False")
        case (Inl e)
        with True hd st "1.prems" show ?thesis
          by (subst (asm) fill_from_bids_loop.simps) simp
      next
        case (Inr stop)
        show ?thesis
        proof (cases stop)
          case stp: True
          with Inr True hd st "1.prems" show ?thesis
            by (subst (asm) fill_from_bids_loop.simps) simp
        next
          case stp: False
          with Inr True hd st "1.prems"
          have "fill_from_bids_loop (snd (match_bid s a trs)) a (fst (match_bid s a trs)) = Inr (trs', s')"
            by (subst (asm) fill_from_bids_loop.simps) simp
          from "1.IH"(2)[OF True hd[symmetric] refl st Inr stp this]
            match_bid_progress[of s a trs] True
          show ?thesis by simp
        qed
      qed
    qed
  qed
qed

lemma fill_from_asks_progress:
  assumes "remaining (mem s a) > 0" "ask_heap s \<noteq> []"
    and "order_type (mem s a) = LIMIT \<longrightarrow> price_le (fst (hd (ask_heap s))) (price (mem s a)) = Inr True"
    and "fill_from_asks s a = Inr (new, s')"
  shows "loop_measure (mem s') (ask_heap s') a < loop_measure (mem s) (ask_heap s) a"
proof -
  obtain k ts p where hd: "hd (ask_heap s) = (k, ts, p)" by (cases "hd (ask_heap s)") auto
  have go: "(if order_type (mem s a) = LIMIT then price_gt k (price (mem s a)) else Inr False) = Inr False"
    using assms(3) hd by (auto simp: price_le_def price_gt_def split: option.splits)
  show ?thesis
  proof (cases "status (mem s p) \<in> {''filled'', ''cancelled''}")
    case True
    with assms hd
    have "fill_from_asks_loop (s\<lparr>ask_heap := heappop (ask_heap s)\<rparr>) a [] = Inr (new, s')"
      unfolding fill_from_asks_def by (subst (asm) fill_from_asks_loop.simps) simp
    from fill_from_asks_loop_measure[OF this] assms(2)
    show ?thesis by (cases "ask_heap s") (auto simp: loop_measure_def heappop_def)
  next
    case False
    with assms hd go
    have "fill_from_asks_loop (snd (match_ask s a [])) a (fst (match_ask s a [])) = Inr (new, s')"
      unfolding fill_from_asks_def by (subst (asm) fill_from_asks_loop.simps) simp
    from fill_from_asks_loop_measure[OF this] match_ask_progress[OF assms(1,2), of "[]"]
    show ?thesis by simp
  qed
qed

lemma fill_from_bids_progress:
  assumes "remaining (mem s a) > 0" "bid_heap s \<noteq> []"
    and "order_type (mem s a) = LIMIT \<longrightarrow> price_ge (- fst (hd (bid_heap s))) (price (mem s a)) = Inr True"
    and "fill_from_bids s a = Inr (new, s')"
  shows "loop_measure (mem s') (bid_heap s') a < loop_measure (mem s) (bid_heap s) a"
proof -
  obtain k ts p where hd: "hd (bid_heap s) = (k, ts, p)" by (cases "hd (bid_heap s)") auto
  have go: "(if order_type (mem s a) = LIMIT then price_lt (- k) (price (mem s a)) else Inr False) = Inr False"
    using assms(3) hd by (auto simp: price_ge_def price_lt_def split: option.splits)
  show ?thesis
  proof (cases "status (mem s p) \<in> {''filled'', ''cancelled''}")
    case True
    with assms hd
    have "fill_from_bids_loop (s\<lparr>bid_heap := heappop (bid_heap s)\<rparr>) a [] = Inr (new, s')"
      unfolding fill_from_bids_def by (subst (asm) fill_from_bids_loop.simps) simp
    from fill_from_bids_loop_measure[OF this] assms(2)
    show ?thesis by (cases "bid_heap s") (auto simp: loop_measure_def heappop_def)
  next
    case False
    with assms hd go
    have "fill_from_bids_loop (snd (match_bid s a [])) a (fst (match_bid s a [])) = Inr (new, s')"
      unfolding fill_from_bids_def by (subst (asm) fill_from_bids_loop.simps) simp
    from fill_from_bids_loop_measure[OF this] match_bid_progress[OF assms(1,2), of "[]"]
    show ?thesis by simp
  qed
qed

text \<open>The two matching loops of \<^verbatim>\<open>_match_limit_order\<close>.\<close>

function limit_buy_loop :: "state \<Rightarrow> nat \<Rightarrow> Trade list \<Rightarrow> error + Trade list \<times> state" where
  "limit_buy_loop s a trs =
     (if remaining (mem s a) > 0 \<and> ask_heap s \<noteq> [] then
        (case price_le (fst (hd (ask_heap s))) (price (mem s a)) of
           Inl e \<Rightarrow> Inl e
         | Inr crossing \<Rightarrow>
             if crossing then
               (case fill_from_asks s a of
                  Inl e \<Rightarrow> Inl e
                | Inr (new, s') \<Rightarrow> limit_buy_loop s' a (trs @ new))
             else Inr (trs, s))
      else Inr (trs, s))"
  by pat_completeness auto
termination
proof (relation "measure (\<lambda>(s, a, trs). loop_measure (mem s) (ask_heap s) a)", goal_cases)
  case 1
  show ?case by simp
next
  case (2 s a trs crossing x new s')
  then show ?case using fill_from_asks_progress[of s a new s'] by simp
qed

function limit_sell_loop :: "state \<Rightarrow> nat \<Rightarrow> Trade list \<Rightarrow> error + Trade list \<times> state" where
  "limit_sell_loop s a trs =
     (if remaining (mem s a) > 0 \<and> bid_heap s \<noteq> [] then
        (case price_ge (- fst (hd (bid_heap s))) (price (mem s a)) of
           Inl e \<Rightarrow> Inl e
         | Inr crossing \<Rightarrow>
             if crossing then
               (case fill_from_bids s a of
                  Inl e \<Rightarrow> Inl e
                | Inr (new, s') \<Rightarrow> limit_sell_loop s' a (trs @ new))
             else Inr (trs, s))
      else Inr (trs, s))"
  by pat_completeness auto
termination
proof (relation "measure (\<lambda>(s, a, trs). loop_measure (mem s) (bid_heap s) a)", goal_cases)
  case 1
  show ?case by simp
next
  case (2 s a trs crossing x new s')
  then show ?case using fill_from_bids_progress[of s a new s'] by simp
qed

declare limit_buy_loop.simps [simp del] limit_sell_loop.simps [simp del]

text \<open>
  The two loops of \<^verbatim>\<open>_match_market_order\<close>. Called on an order that is not a market order
  they can run forever (the inner loop breaks on the limit price and the outer loop calls it
  again), so they are partial: \<open>None\<close> is the loop that does not return.
\<close>

partial_function (option) market_buy_loop :: "state \<Rightarrow> nat \<Rightarrow> Trade list \<Rightarrow> (error + Trade list \<times> state) option" where
  "market_buy_loop s a trs =
     (if remaining (mem s a) > 0 \<and> ask_heap s \<noteq> [] then
        (case fill_from_asks s a of
           Inl e \<Rightarrow> Some (Inl e)
         | Inr (new, s') \<Rightarrow>
             if ask_heap s' = [] then Some (Inr (trs @ new, s'))
             else market_buy_loop s' a (trs @ new))
      else Some (Inr (trs, s)))"

partial_function (option) market_sell_loop :: "state \<Rightarrow> nat \<Rightarrow> Trade list \<Rightarrow> (error + Trade list \<times> state) option" where
  "market_sell_loop s a trs =
     (if remaining (mem s a) > 0 \<and> bid_heap s \<noteq> [] then
        (case fill_from_bids s a of
           Inl e \<Rightarrow> Some (Inl e)
         | Inr (new, s') \<Rightarrow>
             if bid_heap s' = [] then Some (Inr (trs @ new, s'))
             else market_sell_loop s' a (trs @ new))
      else Some (Inr (trs, s)))"


declare market_buy_loop.simps [code] market_sell_loop.simps [code]

text \<open>
  \<^verbatim>\<open>_add_to_bids\<close> and \<^verbatim>\<open>_add_to_asks\<close>. For an order without a price the negation
  \<^verbatim>\<open>-price\<close> raises on the bid side; on the ask side the key \<^verbatim>\<open>None\<close> does not compare with
  the prices in the heap, which breaks the contract of the heap, and the model raises there
  as well.
\<close>

definition add_to_bids :: "state \<Rightarrow> nat \<Rightarrow> error + state" where
  "add_to_bids s a =
     (case price (mem s a) of
        None \<Rightarrow> Inl TypeError
      | Some pr \<Rightarrow>
          let lvl = (case bid_levels s pr of None \<Rightarrow> PriceLevel_init pr | Some l \<Rightarrow> l);
              s1 = s\<lparr>bid_levels := (bid_levels s)(pr \<mapsto> level_add_order (mem s) lvl a)\<rparr>
          in (case heappush (bid_heap s1) (- pr, timestamp (mem s1 a), a) of
                Inl e \<Rightarrow> Inl e
              | Inr h \<Rightarrow> Inr (s1\<lparr>bid_heap := h\<rparr>)))"

definition add_to_asks :: "state \<Rightarrow> nat \<Rightarrow> error + state" where
  "add_to_asks s a =
     (case price (mem s a) of
        None \<Rightarrow> Inl TypeError
      | Some pr \<Rightarrow>
          let lvl = (case ask_levels s pr of None \<Rightarrow> PriceLevel_init pr | Some l \<Rightarrow> l);
              s1 = s\<lparr>ask_levels := (ask_levels s)(pr \<mapsto> level_add_order (mem s) lvl a)\<rparr>
          in (case heappush (ask_heap s1) (pr, timestamp (mem s1 a), a) of
                Inl e \<Rightarrow> Inl e
              | Inr h \<Rightarrow> Inr (s1\<lparr>ask_heap := h\<rparr>)))"

text \<open>\<^verbatim>\<open>_match_limit_order\<close>.\<close>

definition match_limit_order :: "state \<Rightarrow> nat \<Rightarrow> error + Trade list \<times> state" where
  "match_limit_order s a =
     (if side (mem s a) = BUY then
        (case limit_buy_loop s a [] of
           Inl e \<Rightarrow> Inl e
         | Inr (trs, s1) \<Rightarrow>
             if remaining (mem s1 a) > 0 \<and> status (mem s1 a) \<noteq> ''filled'' then
               (case add_to_bids s1 a of Inl e \<Rightarrow> Inl e | Inr s2 \<Rightarrow> Inr (trs, s2))
             else Inr (trs, s1))
      else
        (case limit_sell_loop s a [] of
           Inl e \<Rightarrow> Inl e
         | Inr (trs, s1) \<Rightarrow>
             if remaining (mem s1 a) > 0 \<and> status (mem s1 a) \<noteq> ''filled'' then
               (case add_to_asks s1 a of Inl e \<Rightarrow> Inl e | Inr s2 \<Rightarrow> Inr (trs, s2))
             else Inr (trs, s1)))"

text \<open>\<^verbatim>\<open>_match_market_order\<close>.\<close>

definition match_market_order :: "state \<Rightarrow> nat \<Rightarrow> (error + Trade list \<times> state) option" where
  "match_market_order s a =
     (case (if side (mem s a) = BUY then market_buy_loop s a [] else market_sell_loop s a []) of
        None \<Rightarrow> None
      | Some (Inl e) \<Rightarrow> Some (Inl e)
      | Some (Inr (trs, s1)) \<Rightarrow>
          Some (Inr (trs,
            if remaining (mem s1 a) > 0
            then s1\<lparr>mem := (mem s1)(a := (mem s1 a)\<lparr>status := ''partial''\<rparr>)\<rparr>
            else s1)))"

text \<open>
  \<^verbatim>\<open>OrderBook.add_order\<close>, on the reference of the order. The result is \<open>None\<close> when the
  call does not return, \<open>Some (Inl e)\<close> when it raises \<open>e\<close>, and \<open>Some (Inr (trades, s'))\<close>
  when it returns \<open>trades\<close> and leaves the state \<open>s'\<close>.
\<close>

definition add_order :: "state \<Rightarrow> nat \<Rightarrow> (error + Trade list \<times> state) option" where
  "add_order s a =
     (let s0 = s\<lparr>orders_index := (orders_index s)(id' (mem s a) \<mapsto> a)\<rparr>
      in case (if order_type (mem s0 a) = MARKET then match_market_order s0 a
               else Some (match_limit_order s0 a)) of
           None \<Rightarrow> None
         | Some (Inl e) \<Rightarrow> Some (Inl e)
         | Some (Inr (trs, s1)) \<Rightarrow>
             Some (Inr (trs,
               s1\<lparr>trades := trades s1 @ trs,
                  total_trades := total_trades s1 + length trs,
                  total_volume := total_volume s1 + sum_list (map trade_quantity trs)\<rparr>)))"

text \<open>\<^verbatim>\<open>OrderBook.cancel_order\<close>: the returned boolean and the state after the call.\<close>

definition cancel_order :: "state \<Rightarrow> nat \<Rightarrow> bool \<times> state" where
  "cancel_order s order_id =
     (case orders_index s order_id of
        None \<Rightarrow> (False, s)
      | Some r \<Rightarrow>
          let s1 = s\<lparr>mem := (mem s)(r := cancel (mem s r))\<rparr>
          in (True,
              case price (mem s1 r) of
                None \<Rightarrow> s1
              | Some pr \<Rightarrow>
                  if side (mem s1 r) = BUY \<and> bid_levels s1 pr \<noteq> None then
                    s1\<lparr>bid_levels := (bid_levels s1)(pr \<mapsto> remove_filled (mem s1) (the (bid_levels s1 pr)))\<rparr>
                  else if side (mem s1 r) = SELL \<and> ask_levels s1 pr \<noteq> None then
                    s1\<lparr>ask_levels := (ask_levels s1)(pr \<mapsto> remove_filled (mem s1) (the (ask_levels s1 pr)))\<rparr>
                  else s1))"

text \<open>
  \<^verbatim>\<open>best_bid\<close> and \<^verbatim>\<open>best_ask\<close>: the returned price, \<open>None\<close> for Python's \<^verbatim>\<open>None\<close>, and the
  state after the call, in which the stale heads have been popped.
\<close>

function best_bid :: "state \<Rightarrow> rat option \<times> state" where
  "best_bid s =
     (if bid_heap s \<noteq> [] then
        (case hd (bid_heap s) of (neg_price, ts, r) \<Rightarrow>
           if status (mem s r) \<notin> {''filled'', ''cancelled''} \<and> remaining (mem s r) > 0
           then (Some (- neg_price), s)
           else best_bid (s\<lparr>bid_heap := heappop (bid_heap s)\<rparr>))
      else (None, s))"
  by pat_completeness auto
termination
  by (relation "measure (\<lambda>s. length (bid_heap s))") (auto simp: heappop_def)

function best_ask :: "state \<Rightarrow> rat option \<times> state" where
  "best_ask s =
     (if ask_heap s \<noteq> [] then
        (case hd (ask_heap s) of (pr, ts, r) \<Rightarrow>
           if status (mem s r) \<notin> {''filled'', ''cancelled''} \<and> remaining (mem s r) > 0
           then (Some pr, s)
           else best_ask (s\<lparr>ask_heap := heappop (ask_heap s)\<rparr>))
      else (None, s))"
  by pat_completeness auto
termination
  by (relation "measure (\<lambda>s. length (ask_heap s))") (auto simp: heappop_def)

declare best_bid.simps [simp del] best_ask.simps [simp del]





section \<open>Callers\<close>

text \<open>
  A caller of the book: it constructs an order, submits an order it holds, does both at
  once, cancels by identifier, reads the best prices, and can call \<^verbatim>\<open>fill\<close> and
  \<^verbatim>\<open>cancel\<close> on an order it holds. It holds references of constructed orders only: a call
  that names another address is not a call it can make, and is skipped.
\<close>

datatype call =
    Construct Side OrderType rat "rat option" string rat
  | Submit Side OrderType rat "rat option" string rat
  | AddOrder nat
  | CancelOrder nat
  | BestBid
  | BestAsk
  | OrderFill nat rat
  | OrderCancel nat

definition constructed :: "state \<Rightarrow> nat \<Rightarrow> bool" where
  "constructed s r = (0 < r \<and> r \<le> id_counter s)"

fun step :: "state \<Rightarrow> call \<Rightarrow> (error + state) option" where
  "step s (Construct sd ty qty pr trader now) =
     Some (Inr (snd (new_order s sd ty qty pr trader now)))"
| "step s (Submit sd ty qty pr trader now) =
     (case new_order s sd ty qty pr trader now of (a, s0) \<Rightarrow>
        map_option (map_sum id snd) (add_order s0 a))"
| "step s (AddOrder r) =
     (if constructed s r then map_option (map_sum id snd) (add_order s r) else Some (Inr s))"
| "step s (CancelOrder i) = Some (Inr (snd (cancel_order s i)))"
| "step s BestBid = Some (Inr (snd (best_bid s)))"
| "step s BestAsk = Some (Inr (snd (best_ask s)))"
| "step s (OrderFill r q) =
     (if constructed s r then Some (Inr (s\<lparr>mem := (mem s)(r := snd (fill (mem s r) q))\<rparr>))
      else Some (Inr s))"
| "step s (OrderCancel r) =
     (if constructed s r then Some (Inr (s\<lparr>mem := (mem s)(r := cancel (mem s r))\<rparr>))
      else Some (Inr s))"

text \<open>A sequence of calls stops at the first one that raises or does not return.\<close>

fun run :: "state \<Rightarrow> call list \<Rightarrow> (error + state) option" where
  "run s [] = Some (Inr s)"
| "run s (c # cs) =
     (case step s c of
        None \<Rightarrow> None
      | Some (Inl e) \<Rightarrow> Some (Inl e)
      | Some (Inr s') \<Rightarrow> run s' cs)"

section \<open>Reasoning about the matching loops\<close>

abbreviation key_of :: "entry \<Rightarrow> rat" where
  "key_of e \<equiv> fst e"


abbreviation ref_of :: "entry \<Rightarrow> nat" where
  "ref_of e \<equiv> snd (snd e)"



lemma matched_mem_fixed:
  "id' (matched_mem m a p r) = id' (m r)" "side (matched_mem m a p r) = side (m r)"
  "order_type (matched_mem m a p r) = order_type (m r)"
  "quantity (matched_mem m a p r) = quantity (m r)"
  "price (matched_mem m a p r) = price (m r)" "timestamp (matched_mem m a p r) = timestamp (m r)"
  "trader_id (matched_mem m a p r) = trader_id (m r)"
  by (simp_all add: matched_mem_def Let_def fill_fixed)


















section \<open>Reasoning about the best prices\<close>

definition live :: "Order \<Rightarrow> bool" where
  "live ord = (status ord \<notin> {''filled'', ''cancelled''} \<and> 0 < remaining ord)"

lemma best_bid_step:
  "best_bid s =
     (if bid_heap s = [] then (None, s)
      else if live (mem s (ref_of (hd (bid_heap s)))) then (Some (- key_of (hd (bid_heap s))), s)
      else best_bid (s\<lparr>bid_heap := tl (bid_heap s)\<rparr>))"
  by (subst best_bid.simps) (simp add: live_def heappop_def split: prod.splits)

lemma best_ask_step:
  "best_ask s =
     (if ask_heap s = [] then (None, s)
      else if live (mem s (ref_of (hd (ask_heap s)))) then (Some (key_of (hd (ask_heap s))), s)
      else best_ask (s\<lparr>ask_heap := tl (ask_heap s)\<rparr>))"
  by (subst best_ask.simps) (simp add: live_def heappop_def split: prod.splits)

lemma best_bid_invariant:
  assumes "P s"
    and "\<And>s. P s \<Longrightarrow> bid_heap s \<noteq> [] \<Longrightarrow> \<not> live (mem s (ref_of (hd (bid_heap s)))) \<Longrightarrow>
           P (s\<lparr>bid_heap := tl (bid_heap s)\<rparr>)"
  shows "P (snd (best_bid s))"
  using assms
proof (induction s rule: best_bid.induct)
  case (1 s)
  show ?case
  proof (cases "bid_heap s \<noteq> [] \<and> \<not> live (mem s (ref_of (hd (bid_heap s))))")
    case False
    with "1.prems"(1) show ?thesis by (subst best_bid_step) auto
  next
    case True
    obtain k ts r where hd: "hd (bid_heap s) = (k, ts, r)" by (cases "hd (bid_heap s)") auto
    from True hd have nl: "\<not> (status (mem s r) \<notin> {''filled'', ''cancelled''} \<and> 0 < remaining (mem s r))"
      by (simp add: live_def)
    have "P (s\<lparr>bid_heap := heappop (bid_heap s)\<rparr>)"
      using "1.prems"(2)[OF "1.prems"(1)] True by (simp add: heappop_def)
    from "1.IH"[OF _ hd[symmetric] refl nl this "1.prems"(2)] True
    have "P (snd (best_bid (s\<lparr>bid_heap := heappop (bid_heap s)\<rparr>)))" by simp
    with True show ?thesis by (subst best_bid_step) (simp add: heappop_def)
  qed
qed

lemma best_ask_invariant:
  assumes "P s"
    and "\<And>s. P s \<Longrightarrow> ask_heap s \<noteq> [] \<Longrightarrow> \<not> live (mem s (ref_of (hd (ask_heap s)))) \<Longrightarrow>
           P (s\<lparr>ask_heap := tl (ask_heap s)\<rparr>)"
  shows "P (snd (best_ask s))"
  using assms
proof (induction s rule: best_ask.induct)
  case (1 s)
  show ?case
  proof (cases "ask_heap s \<noteq> [] \<and> \<not> live (mem s (ref_of (hd (ask_heap s))))")
    case False
    with "1.prems"(1) show ?thesis by (subst best_ask_step) auto
  next
    case True
    obtain k ts r where hd: "hd (ask_heap s) = (k, ts, r)" by (cases "hd (ask_heap s)") auto
    from True hd have nl: "\<not> (status (mem s r) \<notin> {''filled'', ''cancelled''} \<and> 0 < remaining (mem s r))"
      by (simp add: live_def)
    have "P (s\<lparr>ask_heap := heappop (ask_heap s)\<rparr>)"
      using "1.prems"(2)[OF "1.prems"(1)] True by (simp add: heappop_def)
    from "1.IH"[OF _ hd[symmetric] refl nl this "1.prems"(2)] True
    have "P (snd (best_ask (s\<lparr>ask_heap := heappop (ask_heap s)\<rparr>)))" by simp
    with True show ?thesis by (subst best_ask_step) (simp add: heappop_def)
  qed
qed



section \<open>Well-formed books\<close>

text \<open>
  No method of the source assigns the identifier, the side, the type, the original
  quantity, the price or the timestamp of an order after its construction.
\<close>

definition fixed_fields :: "Order \<Rightarrow> Order \<Rightarrow> bool" where
  "fixed_fields ord ord' =
     (id' ord' = id' ord \<and> side ord' = side ord \<and> order_type ord' = order_type ord \<and>
      quantity ord' = quantity ord \<and> price ord' = price ord \<and> timestamp ord' = timestamp ord)"

lemma fixed_fields_refl [simp]: "fixed_fields ord ord"
  by (simp add: fixed_fields_def)


lemma fixed_fields_fill [simp]: "fixed_fields ord (snd (fill ord q))"
  by (simp add: fixed_fields_def fill_fixed)

lemma fixed_fields_cancel [simp]: "fixed_fields ord (cancel ord)"
  by (simp add: fixed_fields_def cancel_def)

lemma fixed_fields_status [simp]: "fixed_fields ord (ord\<lparr>status := x\<rparr>)"
  by (simp add: fixed_fields_def)

lemma fixed_fields_matched [simp]: "fixed_fields (m r) (matched_mem m a p r)"
  by (simp add: fixed_fields_def matched_mem_fixed)



lemma set_heap_insert [simp]: "set (heap_insert e h) = insert e (set h)"
  by (induction h) auto



















section \<open>Resting orders\<close>










section \<open>The two sides of the book\<close>




section \<open>The order of the heaps\<close>












section \<open>Price-time priority\<close>







section \<open>The resting order of a trade\<close>



section \<open>What \<^verbatim>\<open>add_order\<close> does to the trade log and to the orders\<close>







section \<open>Running the model on concrete calls\<close>

text \<open>The equations that evaluate one call on a state that is written out.\<close>

lemmas exec =
  new_order_def Order_init_def add_order_def match_limit_order_def match_market_order_def
  limit_buy_loop.simps limit_sell_loop.simps market_buy_loop.simps market_sell_loop.simps
  fill_from_asks_def fill_from_bids_def fill_from_asks_loop.simps fill_from_bids_loop.simps
  match_ask_def match_bid_def fill_def cancel_def add_to_bids_def add_to_asks_def
  heappush_def heappop_def incomparable_def entry_lt_def level_add_order_def PriceLevel_init_def
  remove_filled_def price_gt_def price_lt_def price_le_def price_ge_def cancel_order_def
  constructed_def Let_def eval_nat_numeral fun_eq_iff

section \<open>A resting ask of 1 at 100, and a market buy of 0.4 against it\<close>

definition c9a :: state where
  "c9a = \<lparr>mem = (\<lambda>_. unallocated)
            (1 := \<lparr>id' = 1, side = SELL, order_type = LIMIT, quantity = 1, price = Some 100,
                   timestamp = 0, remaining = 1, filled = 0, trader_id = ''anonymous'',
                   status = ''open''\<rparr>),
          id_counter = 1, bid_heap = [], ask_heap = [(100, 0, 1)],
          bid_levels = Map.empty,
          ask_levels = [100 \<mapsto> \<lparr>level_price = 100, orders = [1], total_quantity = 1\<rparr>],
          orders_index = [1 \<mapsto> 1],
          trades = [], total_volume = 0, total_trades = 0\<rparr>"

definition c9 :: state where
  "c9 = \<lparr>mem = (\<lambda>_. unallocated)
            (1 := \<lparr>id' = 1, side = SELL, order_type = LIMIT, quantity = 1, price = Some 100,
                   timestamp = 0, remaining = 3 / 5, filled = 2 / 5, trader_id = ''anonymous'',
                   status = ''partial''\<rparr>,
             2 := \<lparr>id' = 2, side = BUY, order_type = MARKET, quantity = 2 / 5, price = None,
                   timestamp = 1, remaining = 0, filled = 2 / 5, trader_id = ''anonymous'',
                   status = ''filled''\<rparr>),
          id_counter = 2, bid_heap = [], ask_heap = [(100, 0, 1)],
          bid_levels = Map.empty,
          ask_levels = [100 \<mapsto> \<lparr>level_price = 100, orders = [1], total_quantity = 1\<rparr>],
          orders_index = [1 \<mapsto> 1, 2 \<mapsto> 2],
          trades = [\<lparr>buy_order_id = 2, sell_order_id = 1, trade_price = 100,
                     trade_quantity = 2 / 5\<rparr>],
          total_volume = 2 / 5, total_trades = 1\<rparr>"

lemma c9a: "step OrderBook_init (Submit SELL LIMIT 1 (Some 100) ''anonymous'' 0) = Some (Inr c9a)"
  by (simp add: OrderBook_init_def c9a_def exec)

lemma c9: "step c9a (Submit BUY MARKET (2 / 5) None ''anonymous'' 1) = Some (Inr c9)"
  by (simp add: c9a_def c9_def exec)

lemma c9_run:
  "run OrderBook_init [Submit SELL LIMIT 1 (Some 100) ''anonymous'' 0,
      Submit BUY MARKET (2 / 5) None ''anonymous'' 1] = Some (Inr c9)"
  by (simp only: run.simps c9a c9 option.case sum.case)

section \<open>The aggregate quantity of a price level (C9)\<close>

text \<open>The sum of the remaining quantities of the live orders that rest at a level.\<close>

definition live_quantity :: "store \<Rightarrow> PriceLevel \<Rightarrow> rat" where
  "live_quantity m lvl =
     sum_list (map (\<lambda>r. remaining (m r)) (filter (\<lambda>r. \<not> stale (m r)) (orders lvl)))"

text \<open>
  C9 does not hold of the code: after a market buy of 0.4 has partially filled the only
  resting ask, 1 at 100, the level at 100 still holds that order, which is live with 0.6
  remaining, and its \<^verbatim>\<open>total_quantity\<close> is still 1. \<^verbatim>\<open>_fill_from_asks\<close> updates the level
  only when the passive order is exhausted.
\<close>

theorem total_quantity_after_partial_fill:
  "run OrderBook_init [Submit SELL LIMIT 1 (Some 100) ''anonymous'' 0,
      Submit BUY MARKET (2 / 5) None ''anonymous'' 1] = Some (Inr c9)
   \<and> ask_levels c9 100 = Some \<lparr>level_price = 100, orders = [1], total_quantity = 1\<rparr>
   \<and> status (mem c9 1) = ''partial'' \<and> remaining (mem c9 1) = 3 / 5
   \<and> live_quantity (mem c9) (the (ask_levels c9 100)) = 3 / 5
   \<and> total_quantity (the (ask_levels c9 100)) = 1"
proof -
  have "ask_levels c9 100 = Some \<lparr>level_price = 100, orders = [1], total_quantity = 1\<rparr>"
    "status (mem c9 1) = ''partial''" "remaining (mem c9 1) = 3 / 5"
    "live_quantity (mem c9) (the (ask_levels c9 100)) = 3 / 5"
    "total_quantity (the (ask_levels c9 100)) = 1"
    by (simp_all add: c9_def live_quantity_def stale_def)
  with c9_run show ?thesis by (intro conjI)
qed

section \<open>The price of a trade (C1)\<close>








section \<open>Fill conservation (C2)\<close>








section \<open>A market order without liquidity (C3)\<close>











section \<open>Price-time priority of the matching (C4)\<close>

text \<open>
  The resting order of a trade made for an aggressor of side \<open>sd\<close>, and the heap entry of
  that order: the key is the price of the trade on the ask side and its negation on the
  bid side, the timestamp is the order's.
\<close>

definition passive_id :: "Side \<Rightarrow> Trade \<Rightarrow> nat" where
  "passive_id sd t = (case sd of BUY \<Rightarrow> sell_order_id t | SELL \<Rightarrow> buy_order_id t)"

definition trade_entry :: "state \<Rightarrow> Side \<Rightarrow> Trade \<Rightarrow> entry" where
  "trade_entry s sd t =
     ((case sd of BUY \<Rightarrow> trade_price t | SELL \<Rightarrow> - trade_price t),
      timestamp (mem s (passive_id sd t)), passive_id sd t)"

lemma ref_of_trade_entry [simp]: "ref_of (trade_entry s sd t) = passive_id sd t"
  by (simp add: trade_entry_def)















section \<open>Reading the best prices (C5)\<close>














section \<open>A limit buy and the matching limit sell (C6)\<close>

text \<open>
  The states that the four calls leave, from the new book: the buy order is constructed
  and submitted, then the sell order of the same price and quantity.
\<close>

definition rt1 :: "rat \<Rightarrow> rat \<Rightarrow> string \<Rightarrow> rat \<Rightarrow> state" where
  "rt1 qty p tr1 t1 =
     \<lparr>mem = (\<lambda>_. unallocated)
        (1 := \<lparr>id' = 1, side = BUY, order_type = LIMIT, quantity = qty, price = Some p,
               timestamp = t1, remaining = qty, filled = 0, trader_id = tr1, status = ''open''\<rparr>),
      id_counter = 1, bid_heap = [], ask_heap = [],
      bid_levels = Map.empty, ask_levels = Map.empty, orders_index = Map.empty,
      trades = [], total_volume = 0, total_trades = 0\<rparr>"

definition rt2 :: "rat \<Rightarrow> rat \<Rightarrow> string \<Rightarrow> rat \<Rightarrow> state" where
  "rt2 qty p tr1 t1 =
     \<lparr>mem = (\<lambda>_. unallocated)
        (1 := \<lparr>id' = 1, side = BUY, order_type = LIMIT, quantity = qty, price = Some p,
               timestamp = t1, remaining = qty, filled = 0, trader_id = tr1, status = ''open''\<rparr>),
      id_counter = 1, bid_heap = [(- p, t1, 1)], ask_heap = [],
      bid_levels = [p \<mapsto> \<lparr>level_price = p, orders = [1], total_quantity = qty\<rparr>],
      ask_levels = Map.empty, orders_index = [1 \<mapsto> 1],
      trades = [], total_volume = 0, total_trades = 0\<rparr>"

definition rt3 :: "rat \<Rightarrow> rat \<Rightarrow> string \<Rightarrow> rat \<Rightarrow> string \<Rightarrow> rat \<Rightarrow> state" where
  "rt3 qty p tr1 t1 tr2 t2 =
     \<lparr>mem = (\<lambda>_. unallocated)
        (1 := \<lparr>id' = 1, side = BUY, order_type = LIMIT, quantity = qty, price = Some p,
               timestamp = t1, remaining = qty, filled = 0, trader_id = tr1, status = ''open''\<rparr>,
         2 := \<lparr>id' = 2, side = SELL, order_type = LIMIT, quantity = qty, price = Some p,
               timestamp = t2, remaining = qty, filled = 0, trader_id = tr2, status = ''open''\<rparr>),
      id_counter = 2, bid_heap = [(- p, t1, 1)], ask_heap = [],
      bid_levels = [p \<mapsto> \<lparr>level_price = p, orders = [1], total_quantity = qty\<rparr>],
      ask_levels = Map.empty, orders_index = [1 \<mapsto> 1],
      trades = [], total_volume = 0, total_trades = 0\<rparr>"

definition rt4 :: "rat \<Rightarrow> rat \<Rightarrow> string \<Rightarrow> rat \<Rightarrow> string \<Rightarrow> rat \<Rightarrow> state" where
  "rt4 qty p tr1 t1 tr2 t2 =
     \<lparr>mem = (\<lambda>_. unallocated)
        (1 := \<lparr>id' = 1, side = BUY, order_type = LIMIT, quantity = qty, price = Some p,
               timestamp = t1, remaining = 0, filled = qty, trader_id = tr1, status = ''filled''\<rparr>,
         2 := \<lparr>id' = 2, side = SELL, order_type = LIMIT, quantity = qty, price = Some p,
               timestamp = t2, remaining = 0, filled = qty, trader_id = tr2, status = ''filled''\<rparr>),
      id_counter = 2, bid_heap = [], ask_heap = [],
      bid_levels = [p \<mapsto> \<lparr>level_price = p, orders = [], total_quantity = 0\<rparr>],
      ask_levels = Map.empty, orders_index = [1 \<mapsto> 1, 2 \<mapsto> 2],
      trades = [\<lparr>buy_order_id = 1, sell_order_id = 2, trade_price = p, trade_quantity = qty\<rparr>],
      total_volume = qty, total_trades = 1\<rparr>"

lemma rt1: "new_order OrderBook_init BUY LIMIT qty (Some p) tr1 t1 = (1, rt1 qty p tr1 t1)"
  by (simp add: OrderBook_init_def rt1_def exec)

lemma rt2: "0 < qty \<Longrightarrow> add_order (rt1 qty p tr1 t1) 1 = Some (Inr ([], rt2 qty p tr1 t1))"
  by (simp add: rt1_def rt2_def exec)

lemma rt3:
  "new_order (rt2 qty p tr1 t1) SELL LIMIT qty (Some p) tr2 t2 = (2, rt3 qty p tr1 t1 tr2 t2)"
  by (simp add: rt2_def rt3_def exec)

lemma rt4:
  "0 < qty \<Longrightarrow>
   add_order (rt3 qty p tr1 t1 tr2 t2) 2 =
     Some (Inr ([\<lparr>buy_order_id = 1, sell_order_id = 2, trade_price = p, trade_quantity = qty\<rparr>],
                rt4 qty p tr1 t1 tr2 t2))"
  by (simp add: rt3_def rt4_def exec)

text \<open>
  C6: from the new book, a limit buy and then a limit sell of the same price and the same
  positive quantity: the first call returns no trade, the second returns exactly one
  trade, at that price and for that quantity, between the two orders; both orders end
  \<^verbatim>\<open>filled\<close>, \<^verbatim>\<open>total_trades\<close> is 1, both heaps are empty, and \<^verbatim>\<open>best_bid\<close> and
  \<^verbatim>\<open>best_ask\<close> report absence.
\<close>

theorem limit_round_trip:
  assumes "0 < qty"
  shows "\<exists>s1 s2 s3 s4.
           new_order OrderBook_init BUY LIMIT qty (Some p) tr1 t1 = (1, s1)
         \<and> add_order s1 1 = Some (Inr ([], s2))
         \<and> new_order s2 SELL LIMIT qty (Some p) tr2 t2 = (2, s3)
         \<and> add_order s3 2 =
             Some (Inr ([\<lparr>buy_order_id = 1, sell_order_id = 2, trade_price = p,
                           trade_quantity = qty\<rparr>], s4))
         \<and> status (mem s4 1) = ''filled'' \<and> status (mem s4 2) = ''filled''
         \<and> total_trades s4 = 1 \<and> length (trades s4) = 1
         \<and> bid_heap s4 = [] \<and> ask_heap s4 = []
         \<and> fst (best_bid s4) = None \<and> fst (best_ask s4) = None"
proof (intro exI conjI)
  show "new_order OrderBook_init BUY LIMIT qty (Some p) tr1 t1 = (1, rt1 qty p tr1 t1)"
    by (rule rt1)
  show "add_order (rt1 qty p tr1 t1) 1 = Some (Inr ([], rt2 qty p tr1 t1))"
    by (rule rt2[OF assms])
  show "new_order (rt2 qty p tr1 t1) SELL LIMIT qty (Some p) tr2 t2 = (2, rt3 qty p tr1 t1 tr2 t2)"
    by (rule rt3)
  show "add_order (rt3 qty p tr1 t1 tr2 t2) 2 =
     Some (Inr ([\<lparr>buy_order_id = 1, sell_order_id = 2, trade_price = p, trade_quantity = qty\<rparr>],
                rt4 qty p tr1 t1 tr2 t2))"
    by (rule rt4[OF assms])
qed (simp_all add: rt4_def best_bid.simps best_ask.simps)

theorem limit_round_trip_witness:
  "(0 :: rat) < 1 / 2 \<and>
   (\<exists>s1 s2 s3 s4.
           new_order OrderBook_init BUY LIMIT (1 / 2) (Some 68000) ''anonymous'' 0 = (1, s1)
         \<and> add_order s1 1 = Some (Inr ([], s2))
         \<and> new_order s2 SELL LIMIT (1 / 2) (Some 68000) ''anonymous'' 1 = (2, s3)
         \<and> add_order s3 2 =
             Some (Inr ([\<lparr>buy_order_id = 1, sell_order_id = 2, trade_price = 68000,
                           trade_quantity = 1 / 2\<rparr>], s4))
         \<and> status (mem s4 1) = ''filled'' \<and> status (mem s4 2) = ''filled''
         \<and> total_trades s4 = 1 \<and> length (trades s4) = 1
         \<and> bid_heap s4 = [] \<and> ask_heap s4 = []
         \<and> fst (best_bid s4) = None \<and> fst (best_ask s4) = None)"
proof -
  have pos: "(0 :: rat) < 1 / 2" by simp
  from limit_round_trip[OF pos, of 68000 "''anonymous''" 0 "''anonymous''" 1] pos
  show ?thesis by blast
qed

section \<open>Spread and mid price (C7)\<close>














section \<open>The status of an order (C8)\<close>








section \<open>The trade counters (C10)\<close>





end
